theory Spec2Isabelle
  imports Main
begin

section \<open>JavaScript string primitives used by the client\<close>

text \<open>
  The client is \<^verbatim>\<open>src/clients/repositoryinfoclient.ts\<close>. Strings are lists of
  characters; indices count from 0. The primitives below are the methods of
  \<^verbatim>\<open>String.prototype\<close> that the two private helpers call.
\<close>

text \<open>\<^verbatim>\<open>s.charAt(i)\<close>: the one-character string at \<open>i\<close>, the empty string out of range.\<close>

definition charAt :: "string \<Rightarrow> nat \<Rightarrow> string" where
  "charAt s i = (if i < length s then [s ! i] else [])"

text \<open>
  \<^verbatim>\<open>s.substring(a, b)\<close>: both indices are clamped to the length, and swapped when
  \<open>a > b\<close>. \<^verbatim>\<open>s.substring(a)\<close> runs to the end of the string.
\<close>

definition substring :: "string \<Rightarrow> nat \<Rightarrow> nat \<Rightarrow> string" where
  "substring s a b =
     (let a' = min a (length s); b' = min b (length s);
          lo = min a' b'; hi = max a' b'
      in take (hi - lo) (drop lo s))"

definition substring_from :: "string \<Rightarrow> nat \<Rightarrow> string" where
  "substring_from s a = drop (min a (length s)) s"

text \<open>
  \<^verbatim>\<open>s.lastIndexOf(c)\<close> for a one-character \<open>c\<close>: the search runs backwards from
  the end; the result is \<open>-1\<close> when \<open>c\<close> does not occur.
\<close>

fun lastIndexOf_below :: "string \<Rightarrow> char \<Rightarrow> nat \<Rightarrow> int" where
  "lastIndexOf_below s c 0 = - 1"
| "lastIndexOf_below s c (Suc i) =
     (if s ! i = c then int i else lastIndexOf_below s c i)"

definition lastIndexOf :: "string \<Rightarrow> char \<Rightarrow> int" where
  "lastIndexOf s c = lastIndexOf_below s c (length s)"

section \<open>URL decomposition\<close>

text \<open>
  \<^verbatim>\<open>trimTrailingSeparators\<close> (lines 158-170). The loop counts \<open>lastIndex\<close> down
  from \<open>uri.length\<close> while the character before it is a slash. The counter never
  drops below 0 (the loop tests \<open>lastIndex > 0\<close> first), so it is a natural number
  here and the test \<^verbatim>\<open>lastIndex >= 0\<close> after the loop always holds. A falsy
  \<open>uri\<close> (the empty string) is returned as it is.
\<close>

fun trimLoop :: "string \<Rightarrow> nat \<Rightarrow> nat" where
  "trimLoop uri 0 = 0"
| "trimLoop uri (Suc n) =
     (if charAt uri n = charAt ''/'' 0 then trimLoop uri n else Suc n)"

definition trimTrailingSeparators :: "string \<Rightarrow> string" where
  "trimTrailingSeparators uri =
     (if uri \<noteq> [] then substring uri 0 (trimLoop uri (length uri)) else uri)"

text \<open>
  \<^verbatim>\<open>splitTfvcCollectionUrl\<close> (lines 135-156). The result array starts as
  \<^verbatim>\<open>[ , ]\<close>, whose entries are unset: reading index 0 or 1 gives
  \<^verbatim>\<open>undefined\<close>, modelled as \<open>None\<close>. A falsy \<open>collectionUrl\<close> returns that
  array untouched. The pair is (\<open>result[0]\<close>, \<open>result[1]\<close>).
\<close>

definition splitTfvcCollectionUrl :: "string \<Rightarrow> string option \<times> string option" where
  "splitTfvcCollectionUrl collectionUrl =
     (if collectionUrl = [] then (None, None)
      else
        let trimmedUrl = trimTrailingSeparators collectionUrl;
            index = lastIndexOf trimmedUrl (CHR ''/'')
        in if index \<ge> 0
           then (Some (substring trimmedUrl 0 (nat (index + 1))),
                 Some (substring_from trimmedUrl (nat (index + 1))))
           else (Some collectionUrl, Some ''''))"

text \<open>
  The decomposition as the specification words it: strip every trailing slash, then
  split at the last slash that remains; the suffix is the collection name and the prefix,
  with that slash, is the server URL. With no slash left, the server URL is the whole
  input and the collection name is empty.
\<close>

definition strip_trailing_slashes :: "string \<Rightarrow> string" where
  "strip_trailing_slashes u = rev (dropWhile (\<lambda>c. c = CHR ''/'') (rev u))"

definition decompose_spec :: "string \<Rightarrow> string \<times> string" where
  "decompose_spec u =
     (let t = strip_trailing_slashes u
      in if CHR ''/'' \<in> set t
         then (rev (dropWhile (\<lambda>c. c \<noteq> CHR ''/'') (rev t)),
               rev (takeWhile (\<lambda>c. c \<noteq> CHR ''/'') (rev t)))
         else (u, ''''))"

section \<open>Data of the client\<close>

text \<open>
  \<^verbatim>\<open>RepositoryType\<close> is declared outside this file; the client tests for
  \<open>GIT\<close>, \<open>TFVC\<close> and \<open>EXTERNAL\<close> and falls through for anything else, which
  \<open>OTHER\<close> stands for. \<^verbatim>\<open>IRepositoryContext\<close> is the caller's object: the client
  reads \<open>Type\<close>, \<open>RemoteUrl\<close> and \<open>TeamProjectName\<close> (which may be unset) and, in
  one place, assigns \<open>RemoteUrl\<close>.
\<close>

datatype RepositoryType = GIT | TFVC | EXTERNAL | OTHER

record RepositoryContext =
  Type :: RepositoryType
  RemoteUrl :: string
  TeamProjectName :: "string option"

text \<open>
  What a collaborator's promise rejects with: an object whose \<open>statusCode\<close> may be
  unset. \<^verbatim>\<open>TeamProjectCollection\<close> and \<^verbatim>\<open>TeamProject\<close> carry the fields the client
  reads.
\<close>

record client_error =
  statusCode :: "int option"
  message :: string

record TeamProjectCollection =
  collection_id :: string
  collection_name :: string
  collection_url :: string

record TeamProject =
  project_id :: string
  project_name :: string
  project_description :: string
  project_url :: string

text \<open>The object literal of \<^verbatim>\<open>getTfvcRepoInfoBlob\<close> (lines 173-197).\<close>

record project_blob =
  pb_id :: string
  pb_name :: string
  pb_description :: string
  pb_url :: string
  pb_state :: int
  pb_revision :: int

record repository_blob =
  rb_id :: string
  rb_name :: string
  rb_url :: string
  rb_project :: project_blob
  rb_remoteUrl :: string

record repo_info_blob =
  blob_serverUrl :: string
  blob_collection :: TeamProjectCollection
  blob_repository :: repository_blob

text \<open>
  \<^verbatim>\<open>new RepositoryInfo(x)\<close> is kept as the argument it was built from: the opaque
  answer of \<^verbatim>\<open>getVstsInfo\<close> for Git, the blob otherwise.
\<close>

datatype RepositoryInfo =
    RepositoryInfo_of_vsts string
  | RepositoryInfo_of_blob repo_info_blob

text \<open>
  Everything \<^verbatim>\<open>GetRepositoryInfo\<close> can throw: a collaborator's rejection passed
  through as it is; one of its own three \<^verbatim>\<open>new Error(...)\<close> (two of them start with
  a constant of \<^verbatim>\<open>Strings\<close>, kept symbolic with the interpolated collection name and
  URL; the third is built in the source and kept as text); and the \<open>TypeError\<close> of the
  JavaScript runtime when a property is read from an absent object or \<^verbatim>\<open>url.resolve\<close>
  is given \<^verbatim>\<open>undefined\<close>.
\<close>

datatype error =
    Rejected client_error
  | UnableToValidateTeamServicesTfvcRepository string string
  | UnableToValidateTfvcRepositoryWithDefaultCollection
  | Error string
  | TypeError

text \<open>
  The collaborators, as parameters. \<open>Account\<close> is
  \<^verbatim>\<open>new RepositoryInfo(remoteUrl).Account\<close>. \<open>TeamServicesApi_validate\<close> is
  \<^verbatim>\<open>new TeamServicesApi(url, ..).validateTfvcCollectionUrl()\<close>: \<open>None\<close> when the
  promise resolves, the rejection otherwise. The three fetches resolve to an object, to
  nothing (\<open>Inr None\<close>), or reject. The server URL and collection name handed to the
  collection fetches are the client's local variables, which can be \<^verbatim>\<open>undefined\<close>
  (\<open>None\<close>). \<open>url_resolve\<close> is Node's \<^verbatim>\<open>url.resolve\<close>. The predicate, the
  constructors and the logger are taken not to throw, and what a promise rejects with to
  be an object.
\<close>

record env =
  IsTeamFoundationServicesRepo :: "string \<Rightarrow> bool"
  Account :: "string \<Rightarrow> string"
  getVstsInfo :: "string \<Rightarrow> client_error + string"
  TeamServicesApi_validate :: "string \<Rightarrow> client_error option"
  CoreApi_GetProjectCollection ::
    "string option \<Rightarrow> string option \<Rightarrow> client_error + TeamProjectCollection option"
  TfsCatalogSoap_GetProjectCollection ::
    "string option \<Rightarrow> string option \<Rightarrow> client_error + TeamProjectCollection option"
  CoreApi_GetTeamProject ::
    "string \<Rightarrow> string option \<Rightarrow> client_error + TeamProject option"
  url_resolve :: "string \<Rightarrow> string \<Rightarrow> string"

text \<open>The calls made to the collaborators over the network, in the order they are made.\<close>

datatype event =
    Call_getVstsInfo string
  | Call_validate string
  | Call_CoreApi_GetProjectCollection "string option" "string option"
  | Call_TfsCatalogSoap_GetProjectCollection "string option" "string option"
  | Call_CoreApi_GetTeamProject string "string option"

text \<open>
  A run gives what was returned or thrown, the caller's context afterwards, and the
  calls made.
\<close>

type_synonym 'a run = "(error + 'a) \<times> RepositoryContext \<times> event list"

definition result_of :: "'a run \<Rightarrow> error + 'a" where
  "result_of r = fst r"

definition context_of :: "'a run \<Rightarrow> RepositoryContext" where
  "context_of r = fst (snd r)"

definition calls_of :: "'a run \<Rightarrow> event list" where
  "calls_of r = snd (snd r)"

text \<open>A template literal prints an unset value as \<^verbatim>\<open>undefined\<close>.\<close>

definition interpolate :: "string option \<Rightarrow> string" where
  "interpolate v = (case v of None \<Rightarrow> ''undefined'' | Some s \<Rightarrow> s)"

section \<open>The client\<close>

text \<open>
  \<^verbatim>\<open>validateTfvcCollectionUrl\<close> (lines 203-215): true when the call resolves, false
  when it rejects with \<open>statusCode === 404\<close>, and the rejection rethrown otherwise.
\<close>

definition validateTfvcCollectionUrl :: "env \<Rightarrow> string \<Rightarrow> error + bool" where
  "validateTfvcCollectionUrl e serverUrl =
     (case TeamServicesApi_validate e serverUrl of
        None \<Rightarrow> Inr True
      | Some err \<Rightarrow>
          if statusCode err = Some 404 then Inr False else Inl (Rejected err))"

text \<open>\<^verbatim>\<open>getTfvcRepoInfoBlob\<close> (lines 173-197).\<close>

definition getTfvcRepoInfoBlob ::
  "string \<Rightarrow> string \<Rightarrow> string \<Rightarrow> string \<Rightarrow> string \<Rightarrow> string \<Rightarrow> string \<Rightarrow> string
     \<Rightarrow> repo_info_blob" where
  "getTfvcRepoInfoBlob serverUrl collectionId collectionName collectionUrl
       projectId projectName projectDesc projectUrl =
     \<lparr> blob_serverUrl = serverUrl,
       blob_collection =
         \<lparr> collection_id = collectionId, collection_name = collectionName,
           collection_url = collectionUrl \<rparr>,
       blob_repository =
         \<lparr> rb_id = ''00000000-0000-0000-0000-000000000000'',
           rb_name = ''NoNameTfvcRepository'',
           rb_url = serverUrl,
           rb_project =
             \<lparr> pb_id = projectId, pb_name = projectName, pb_description = projectDesc,
               pb_url = projectUrl, pb_state = 1, pb_revision = 15 \<rparr>,
           rb_remoteUrl = serverUrl \<rparr> \<rparr>"

text \<open>
  Lines 47-93 of \<^verbatim>\<open>GetRepositoryInfo\<close>: the server URL and collection name.
  For a Team Services URL the account gives both and one validation decides. Otherwise
  the remote URL is validated as given and split; when that answers false,
  \<^verbatim>\<open>url.resolve(serverUrl, "DefaultCollection")\<close> is validated, and on success the
  context's \<open>RemoteUrl\<close> is assigned it, for a context of type \<open>TFVC\<close> only, while
  \<open>serverUrl\<close> stays the remote URL as given.
\<close>

definition resolveCollection ::
  "env \<Rightarrow> RepositoryContext \<Rightarrow> (string option \<times> string option) run" where
  "resolveCollection e ctx =
     (if IsTeamFoundationServicesRepo e (RemoteUrl ctx) then
        let collectionName = Account e (RemoteUrl ctx);
            serverUrl = ''https://'' @ collectionName @ ''.visualstudio.com/''
        in (case validateTfvcCollectionUrl e serverUrl of
              Inl err \<Rightarrow> (Inl err, ctx, [Call_validate serverUrl])
            | Inr valid \<Rightarrow>
                if \<not> valid
                then (Inl (UnableToValidateTeamServicesTfvcRepository collectionName serverUrl),
                      ctx, [Call_validate serverUrl])
                else (Inr (Some serverUrl, Some collectionName),
                      ctx, [Call_validate serverUrl]))
      else
        let serverUrl = RemoteUrl ctx
        in (case validateTfvcCollectionUrl e serverUrl of
              Inl err \<Rightarrow> (Inl err, ctx, [Call_validate serverUrl])
            | Inr valid \<Rightarrow>
                if valid
                then (Inr (splitTfvcCollectionUrl serverUrl), ctx, [Call_validate serverUrl])
                else
                  let collectionName = ''DefaultCollection'';
                      remoteUrl = url_resolve e serverUrl collectionName
                  in (case validateTfvcCollectionUrl e remoteUrl of
                        Inl err \<Rightarrow>
                          (Inl err, ctx, [Call_validate serverUrl, Call_validate remoteUrl])
                      | Inr valid2 \<Rightarrow>
                          if \<not> valid2
                          then (Inl UnableToValidateTfvcRepositoryWithDefaultCollection,
                                ctx, [Call_validate serverUrl, Call_validate remoteUrl])
                          else (Inr (Some serverUrl, Some collectionName),
                                (if Type ctx = TFVC then ctx\<lparr>RemoteUrl := remoteUrl\<rparr> else ctx),
                                [Call_validate serverUrl, Call_validate remoteUrl]))))"

text \<open>
  Lines 95-113: the collection. \<open>isTeamServices\<close> picks \<^verbatim>\<open>CoreApiClient\<close> (REST) or
  \<^verbatim>\<open>TfsCatalogSoapClient\<close> (SOAP). Only the SOAP branch tests the answer; after the
  REST branch an absent collection fails at \<^verbatim>\<open>collection.name\<close> on line 113.
\<close>

definition fetchCollection ::
  "env \<Rightarrow> bool \<Rightarrow> string option \<Rightarrow> string option
     \<Rightarrow> (error + TeamProjectCollection) \<times> event list" where
  "fetchCollection e isTeamServices serverUrl collectionName =
     (if isTeamServices then
        (case CoreApi_GetProjectCollection e serverUrl collectionName of
           Inl err \<Rightarrow> Inl (Rejected err)
         | Inr None \<Rightarrow> Inl TypeError
         | Inr (Some collection) \<Rightarrow> Inr collection,
         [Call_CoreApi_GetProjectCollection serverUrl collectionName])
      else
        (case TfsCatalogSoap_GetProjectCollection e serverUrl collectionName of
           Inl err \<Rightarrow> Inl (Rejected err)
         | Inr None \<Rightarrow>
             Inl (Error (''Using SOAP, could not find a project collection object for ''
                    @ interpolate collectionName @ '' at '' @ interpolate serverUrl))
         | Inr (Some collection) \<Rightarrow> Inr collection,
         [Call_TfsCatalogSoap_GetProjectCollection serverUrl collectionName]))"

text \<open>
  Lines 115-130: the project, always through \<^verbatim>\<open>coreApiClient.GetTeamProject\<close>
  (\<^verbatim>\<open>getProjectFromServer\<close>, lines 199-201), at
  \<^verbatim>\<open>url.resolve(serverUrl, isTeamServices ? "" : collection.name)\<close>; then the blob.
  \<^verbatim>\<open>url.resolve\<close> throws a \<open>TypeError\<close> for an unset \<open>serverUrl\<close>, and
  \<^verbatim>\<open>project.id\<close> on line 122 does for an absent project.
\<close>

definition fetchProject ::
  "env \<Rightarrow> bool \<Rightarrow> string option \<Rightarrow> string option \<Rightarrow> TeamProjectCollection
     \<Rightarrow> (error + RepositoryInfo option) \<times> event list" where
  "fetchProject e isTeamServices teamProjectName serverUrl collection =
     (case serverUrl of
        None \<Rightarrow> (Inl TypeError, [])
      | Some server \<Rightarrow>
          let resolvedRemoteUrl =
                url_resolve e server (if isTeamServices then '''' else collection_name collection)
          in (case CoreApi_GetTeamProject e resolvedRemoteUrl teamProjectName of
                Inl err \<Rightarrow> Inl (Rejected err)
              | Inr None \<Rightarrow> Inl TypeError
              | Inr (Some project) \<Rightarrow>
                  Inr (Some (RepositoryInfo_of_blob
                    (getTfvcRepoInfoBlob server (collection_id collection)
                       (collection_name collection) (collection_url collection)
                       (project_id project) (project_name project)
                       (project_description project) (project_url project)))),
              [Call_CoreApi_GetTeamProject resolvedRemoteUrl teamProjectName]))"

text \<open>
  \<^verbatim>\<open>GetRepositoryInfo\<close> (lines 29-133). \<open>isTeamServices\<close> and \<open>teamProjectName\<close>
  are read from the context before anything is assigned to it. A type that is none of
  Git, TFVC and external returns the unset \<open>repositoryInfo\<close>.
\<close>

definition GetRepositoryInfo :: "env \<Rightarrow> RepositoryContext \<Rightarrow> RepositoryInfo option run" where
  "GetRepositoryInfo e ctx =
     (if Type ctx = GIT then
        (case getVstsInfo e (RemoteUrl ctx) of
           Inl err \<Rightarrow> Inl (Rejected err)
         | Inr repoInfo \<Rightarrow> Inr (Some (RepositoryInfo_of_vsts repoInfo)),
         ctx, [Call_getVstsInfo (RemoteUrl ctx)])
      else if Type ctx = TFVC \<or> Type ctx = EXTERNAL then
        let teamProjectName = TeamProjectName ctx;
            isTeamServices = IsTeamFoundationServicesRepo e (RemoteUrl ctx)
        in (case resolveCollection e ctx of
              (Inl err, ctx1, calls1) \<Rightarrow> (Inl err, ctx1, calls1)
            | (Inr (serverUrl, collectionName), ctx1, calls1) \<Rightarrow>
                (case fetchCollection e isTeamServices serverUrl collectionName of
                   (Inl err, calls2) \<Rightarrow> (Inl err, ctx1, calls1 @ calls2)
                 | (Inr collection, calls2) \<Rightarrow>
                     (case fetchProject e isTeamServices teamProjectName serverUrl collection of
                        (r, calls3) \<Rightarrow> (r, ctx1, calls1 @ calls2 @ calls3))))
      else (Inr None, ctx, []))"

section \<open>Node's relative reference resolution\<close>

text \<open>
  \<^verbatim>\<open>url.resolve(from, to)\<close> belongs to Node's library, not to the repository. It
  resolves \<open>to\<close> against \<open>from\<close> as a browser resolves a link: an empty \<open>to\<close> gives
  \<open>from\<close> back (with the path \<open>/\<close> when \<open>from\<close> has none), and a plain segment
  replaces whatever follows the last slash of the path of \<open>from\<close>. The function below
  follows Node on the URLs of the scenarios: \<open>from\<close> an \<open>http\<close> or \<open>https\<close> URL with a
  lower-case host and no query, fragment, dot segment or character that Node escapes,
  \<open>to\<close> empty or one plain segment. It is the value taken for the \<open>url_resolve\<close>
  parameter in the concrete runs; the general theorems hold for any \<open>url_resolve\<close>.
\<close>

definition split_origin :: "string \<Rightarrow> string \<times> string" where
  "split_origin source =
     (let scheme = takeWhile (\<lambda>c. c \<noteq> CHR ''/'') source;
          rest = drop (length scheme) source
      in if take 2 rest = ''//''
         then let host = takeWhile (\<lambda>c. c \<noteq> CHR ''/'') (drop 2 rest)
              in (scheme @ ''//'' @ host, drop (length host) (drop 2 rest))
         else ([], source))"

definition node_url_resolve :: "string \<Rightarrow> string \<Rightarrow> string" where
  "node_url_resolve source relative =
     (let origin = fst (split_origin source);
          path0 = snd (split_origin source);
          pathname = (if origin \<noteq> [] \<and> path0 = [] then ''/'' else path0)
      in if relative = [] then origin @ pathname
         else origin @ rev (dropWhile (\<lambda>c. c \<noteq> CHR ''/'') (rev pathname)) @ relative)"

section \<open>Reading a run\<close>

text \<open>
  The URLs handed to the validation call, in order, and the protocol of each fetch:
  \<^verbatim>\<open>CoreApiClient\<close> is the REST client (line 100), \<^verbatim>\<open>TfsCatalogSoapClient\<close> the
  legacy SOAP one (line 103).
\<close>

fun validated_url :: "event \<Rightarrow> string option" where
  "validated_url (Call_validate u) = Some u"
| "validated_url _ = None"

definition validated_urls :: "event list \<Rightarrow> string list" where
  "validated_urls calls = List.map_filter validated_url calls"

datatype protocol = REST | SOAP

datatype fetch = CollectionFetch | ProjectFetch

fun fetch_of :: "event \<Rightarrow> (fetch \<times> protocol) option" where
  "fetch_of (Call_CoreApi_GetProjectCollection s c) = Some (CollectionFetch, REST)"
| "fetch_of (Call_TfsCatalogSoap_GetProjectCollection s c) = Some (CollectionFetch, SOAP)"
| "fetch_of (Call_CoreApi_GetTeamProject u p) = Some (ProjectFetch, REST)"
| "fetch_of _ = None"

definition fetches :: "event list \<Rightarrow> (fetch \<times> protocol) list" where
  "fetches calls = List.map_filter fetch_of calls"

section \<open>Collaborators for the concrete runs\<close>

text \<open>
  Two sets of collaborators to run the client on. The on-premises server answers the
  validation call for the URLs of a list and rejects every other with status 404; its
  SOAP catalog knows every collection and its REST client every project. The hosted
  service recognises one account URL.
\<close>

definition not_found :: client_error where
  "not_found = \<lparr> statusCode = Some 404, message = ''Not Found'' \<rparr>"

definition onprem_env :: "string list \<Rightarrow> env" where
  "onprem_env valid =
     \<lparr> IsTeamFoundationServicesRepo = (\<lambda>u. False),
       Account = (\<lambda>u. ''''),
       getVstsInfo = (\<lambda>u. Inr ''{}''),
       TeamServicesApi_validate = (\<lambda>u. if u \<in> set valid then None else Some not_found),
       CoreApi_GetProjectCollection = (\<lambda>s c. Inr None),
       TfsCatalogSoap_GetProjectCollection =
         (\<lambda>s c. Inr (Some \<lparr> collection_id = ''c-1'', collection_name = interpolate c,
                              collection_url = interpolate s @ interpolate c \<rparr>)),
       CoreApi_GetTeamProject =
         (\<lambda>u p. Inr (Some \<lparr> project_id = ''p-1'', project_name = interpolate p,
                              project_description = '''', project_url = u \<rparr>)),
       url_resolve = node_url_resolve \<rparr>"

definition hosted_env :: "string list \<Rightarrow> env" where
  "hosted_env valid =
     \<lparr> IsTeamFoundationServicesRepo = (\<lambda>u. u = ''https://fabrikam.visualstudio.com''),
       Account = (\<lambda>u. ''fabrikam''),
       getVstsInfo = (\<lambda>u. Inr ''{}''),
       TeamServicesApi_validate = (\<lambda>u. if u \<in> set valid then None else Some not_found),
       CoreApi_GetProjectCollection =
         (\<lambda>s c. Inr (Some \<lparr> collection_id = ''c-1'', collection_name = interpolate c,
                              collection_url = interpolate s \<rparr>)),
       TfsCatalogSoap_GetProjectCollection = (\<lambda>s c. Inr None),
       CoreApi_GetTeamProject =
         (\<lambda>u p. Inr (Some \<lparr> project_id = ''p-1'', project_name = interpolate p,
                              project_description = '''', project_url = u \<rparr>)),
       url_resolve = node_url_resolve \<rparr>"

text \<open>A server that is down: every validation call is rejected with status 503.\<close>

definition unavailable :: client_error where
  "unavailable = \<lparr> statusCode = Some 503, message = ''Service Unavailable'' \<rparr>"

definition unavailable_env :: env where
  "unavailable_env = (onprem_env [])\<lparr> TeamServicesApi_validate := (\<lambda>u. Some unavailable) \<rparr>"

section \<open>The helpers compute the decomposition\<close>

text \<open>
  The index loop of \<^verbatim>\<open>trimTrailingSeparators\<close> strips the trailing slashes, and
  \<^verbatim>\<open>lastIndexOf\<close> finds the length of the prefix that ends at the last slash.
\<close>

lemma strip_snoc:
  "strip_trailing_slashes (xs @ [c]) =
     (if c = CHR ''/'' then strip_trailing_slashes xs else xs @ [c])"
  by (simp add: strip_trailing_slashes_def)

lemma strip_Nil: "strip_trailing_slashes [] = []"
  by (simp add: strip_trailing_slashes_def)

lemma trimLoop_strip:
  "n \<le> length uri \<Longrightarrow> trimLoop uri n = length (strip_trailing_slashes (take n uri))"
proof (induction n)
  case 0
  then show ?case by (simp add: strip_Nil)
next
  case (Suc n)
  then have lt: "n < length uri" by simp
  then have tk: "take (Suc n) uri = take n uri @ [uri ! n]"
    by (simp add: take_Suc_conv_app_nth)
  show ?case
  proof (cases "uri ! n = CHR ''/''")
    case True
    then show ?thesis using Suc lt tk by (simp add: strip_snoc charAt_def)
  next
    case False
    then show ?thesis using Suc lt tk by (simp add: strip_snoc charAt_def)
  qed
qed

lemma strip_prefix:
  "take (length (strip_trailing_slashes u)) u = strip_trailing_slashes u"
proof (induction u rule: rev_induct)
  case Nil
  then show ?case by (simp add: strip_Nil)
next
  case (snoc c u)
  have "length (strip_trailing_slashes u) \<le> length u"
    by (simp add: strip_trailing_slashes_def) (metis length_dropWhile_le length_rev)
  then show ?case using snoc by (simp add: strip_snoc)
qed

lemma trimTrailingSeparators_strip:
  "trimTrailingSeparators uri = strip_trailing_slashes uri"
proof (cases "uri = []")
  case True
  then show ?thesis by (simp add: trimTrailingSeparators_def strip_Nil)
next
  case False
  have le: "length (strip_trailing_slashes uri) \<le> length uri"
    by (simp add: strip_trailing_slashes_def) (metis length_dropWhile_le length_rev)
  have "trimLoop uri (length uri) = length (strip_trailing_slashes uri)"
    using trimLoop_strip [of "length uri" uri] by simp
  then show ?thesis using False le
    by (simp add: trimTrailingSeparators_def substring_def strip_prefix min_absorb2 min_absorb1)
qed

lemma lastIndexOf_below_absent:
  "n \<le> length s \<Longrightarrow> c \<notin> set (take n s) \<Longrightarrow> lastIndexOf_below s c n = - 1"
proof (induction n)
  case 0
  then show ?case by simp
next
  case (Suc n)
  then have "n < length s" by simp
  then have "take (Suc n) s = take n s @ [s ! n]"
    by (simp add: take_Suc_conv_app_nth)
  with Suc show ?case by auto
qed

lemma lastIndexOf_below_present:
  "n \<le> length s \<Longrightarrow> c \<in> set (take n s) \<Longrightarrow>
   lastIndexOf_below s c n + 1 = int (length (dropWhile (\<lambda>x. x \<noteq> c) (rev (take n s))))"
proof (induction n)
  case 0
  then show ?case by simp
next
  case (Suc n)
  then have lt: "n < length s" by simp
  then have tk: "take (Suc n) s = take n s @ [s ! n]"
    by (simp add: take_Suc_conv_app_nth)
  show ?case
  proof (cases "s ! n = c")
    case True
    then show ?thesis using lt tk by simp
  next
    case False
    then have "c \<in> set (take n s)" using Suc.prems tk by auto
    then show ?thesis using Suc.IH lt tk False by simp
  qed
qed

lemma rev_split_last:
  "rev (dropWhile P (rev t)) @ rev (takeWhile P (rev t)) = t"
  by (metis rev_append rev_rev_ident takeWhile_dropWhile_id)

lemma split_agrees:
  assumes "u \<noteq> []"
  shows "splitTfvcCollectionUrl u = (Some (fst (decompose_spec u)), Some (snd (decompose_spec u)))"
proof -
  let ?t = "strip_trailing_slashes u"
  let ?P = "\<lambda>x. x \<noteq> CHR ''/''"
  show ?thesis
  proof (cases "CHR ''/'' \<in> set ?t")
    case False
    then have "lastIndexOf ?t (CHR ''/'') = - 1"
      using lastIndexOf_below_absent [of "length ?t" ?t "CHR ''/''"]
      by (simp add: lastIndexOf_def)
    then show ?thesis using assms False
      by (simp add: splitTfvcCollectionUrl_def trimTrailingSeparators_strip decompose_spec_def)
  next
    case True
    let ?p = "rev (dropWhile ?P (rev ?t))"
    let ?s = "rev (takeWhile ?P (rev ?t))"
    have idx: "lastIndexOf ?t (CHR ''/'') + 1 = int (length ?p)"
      using lastIndexOf_below_present [of "length ?t" ?t "CHR ''/''"] True
      by (simp add: lastIndexOf_def)
    then have ge: "lastIndexOf ?t (CHR ''/'') \<ge> 0" 
      using True by (cases "dropWhile ?P (rev ?t)") (auto simp: dropWhile_eq_Nil_conv)
    have n: "nat (lastIndexOf ?t (CHR ''/'') + 1) = length ?p" using idx by simp
    have t: "?p @ ?s = ?t" by (rule rev_split_last)
    have le: "length ?p \<le> length ?t" by (metis t length_append le_add1)
    have tk: "take (length ?p) ?t = ?p" by (metis t append_eq_conv_conj)
    have dr: "drop (length ?p) ?t = ?s" by (metis t append_eq_conv_conj)
    have s0: "substring ?t 0 (length ?p) = ?p"
      unfolding substring_def Let_def using le tk by (simp add: min_absorb1)
    have s1: "substring_from ?t (length ?p) = ?s"
      unfolding substring_from_def using le dr by (simp add: min_absorb1)
    have "splitTfvcCollectionUrl u = (Some ?p, Some ?s)"
      unfolding splitTfvcCollectionUrl_def Let_def trimTrailingSeparators_strip n
      using assms ge s0 s1 by simp
    moreover have "decompose_spec u = (?p, ?s)"
      unfolding decompose_spec_def Let_def using True by simp
    ultimately show ?thesis by simp
  qed
qed

text \<open>
  What \<open>decompose_spec\<close> says, spelt out: the stripped string is the input without its
  trailing slashes, and when it holds a slash the two parts make it up, the first ends
  in a slash and the second has none.
\<close>

lemma strip_trailing_slashes_shape:
  "\<exists>k. u = strip_trailing_slashes u @ replicate k (CHR ''/'')"
proof (induction u rule: rev_induct)
  case Nil
  then show ?case by (simp add: strip_Nil)
next
  case (snoc c u)
  then obtain k where k: "u = strip_trailing_slashes u @ replicate k (CHR ''/'')" by blast
  show ?case
  proof (cases "c = CHR ''/''")
    case True
    have "u @ [c] = strip_trailing_slashes u @ replicate (Suc k) (CHR ''/'')"
      using k True by (metis append_assoc replicate_append_same replicate_Suc)
    then show ?thesis using True by (metis strip_snoc)
  next
    case False
    then have "u @ [c] = strip_trailing_slashes (u @ [c]) @ replicate 0 (CHR ''/'')"
      by (simp add: strip_snoc)
    then show ?thesis by blast
  qed
qed

lemma strip_trailing_slashes_last:
  "strip_trailing_slashes u \<noteq> [] \<Longrightarrow> last (strip_trailing_slashes u) \<noteq> CHR ''/''"
proof (induction u rule: rev_induct)
  case Nil
  then show ?case by (simp add: strip_Nil)
next
  case (snoc c u)
  then show ?case by (cases "c = CHR ''/''") (simp_all add: strip_snoc)
qed

lemma decompose_spec_parts:
  assumes "CHR ''/'' \<in> set (strip_trailing_slashes u)"
  shows "fst (decompose_spec u) @ snd (decompose_spec u) = strip_trailing_slashes u"
    and "last (fst (decompose_spec u)) = CHR ''/''"
    and "CHR ''/'' \<notin> set (snd (decompose_spec u))"
    and "snd (decompose_spec u) \<noteq> []"
proof -
  let ?t = "strip_trailing_slashes u"
  let ?P = "\<lambda>c. c \<noteq> CHR ''/''"
  have d: "decompose_spec u = (rev (dropWhile ?P (rev ?t)), rev (takeWhile ?P (rev ?t)))"
    using assms by (simp add: decompose_spec_def Let_def)
  show "fst (decompose_spec u) @ snd (decompose_spec u) = ?t"
    using d by (simp add: rev_split_last)
  have ne: "dropWhile ?P (rev ?t) \<noteq> []" using assms by (simp add: dropWhile_eq_Nil_conv)
  then have "hd (dropWhile ?P (rev ?t)) = CHR ''/''" using hd_dropWhile [of ?P "rev ?t"] by simp
  then show "last (fst (decompose_spec u)) = CHR ''/''" using d ne by (simp add: last_rev)
  show "CHR ''/'' \<notin> set (snd (decompose_spec u))"
    using d by (auto dest: set_takeWhileD)
  have tne: "?t \<noteq> []" using assms by auto
  then have "hd (rev ?t) \<noteq> CHR ''/''"
    using strip_trailing_slashes_last [of u] by (simp add: hd_rev)
  then have "takeWhile ?P (rev ?t) \<noteq> []" using tne by (cases "rev ?t") auto
  then show "snd (decompose_spec u) \<noteq> []" using d by simp
qed

section \<open>What a run of the client contains\<close>

text \<open>
  Only the address resolution validates URLs and touches the context; the two fetches
  that follow add their own calls and nothing else.
\<close>

lemmas run_defs = result_of_def context_of_def calls_of_def

lemma fetchCollection_calls:
  "validated_urls (snd (fetchCollection e h s c)) = []"
  by (simp add: fetchCollection_def validated_urls_def List.map_filter_simps)

lemma fetchProject_calls:
  "validated_urls (snd (fetchProject e h p s c)) = []"
  by (simp add: fetchProject_def validated_urls_def List.map_filter_simps Let_def split: option.splits)

lemma validated_urls_append:
  "validated_urls (xs @ ys) = validated_urls xs @ validated_urls ys"
  by (simp add: validated_urls_def List.map_filter_def)

lemma GetRepositoryInfo_context:
  "Type ctx = TFVC \<or> Type ctx = EXTERNAL \<Longrightarrow>
   context_of (GetRepositoryInfo e ctx) = context_of (resolveCollection e ctx)"
  by (auto simp: GetRepositoryInfo_def context_of_def Let_def split: prod.splits sum.splits)

lemma GetRepositoryInfo_validated:
  assumes "Type ctx = TFVC \<or> Type ctx = EXTERNAL"
  shows "validated_urls (calls_of (GetRepositoryInfo e ctx)) =
         validated_urls (calls_of (resolveCollection e ctx))"
proof -
  obtain r ctx1 calls1 where rc: "resolveCollection e ctx = (r, ctx1, calls1)"
    by (cases "resolveCollection e ctx") auto
  show ?thesis
  proof (cases r)
    case (Inl err)
    then show ?thesis using assms rc by (auto simp: GetRepositoryInfo_def calls_of_def Let_def)
  next
    case (Inr sc)
    obtain s c where sc: "sc = (s, c)" by (cases sc) auto
    let ?h = "IsTeamFoundationServicesRepo e (RemoteUrl ctx)"
    obtain r2 calls2 where fc: "fetchCollection e ?h s c = (r2, calls2)"
      by (cases "fetchCollection e ?h s c") auto
    have v2: "validated_urls calls2 = []"
      using fetchCollection_calls [of e ?h s c] fc by simp
    show ?thesis
    proof (cases r2)
      case (Inl err)
      then show ?thesis using assms rc Inr sc fc v2
        by (auto simp: GetRepositoryInfo_def calls_of_def Let_def validated_urls_append)
    next
      case (Inr coll)
      obtain r3 calls3 where fp: "fetchProject e ?h (TeamProjectName ctx) s coll = (r3, calls3)"
        by (cases "fetchProject e ?h (TeamProjectName ctx) s coll") auto
      have v3: "validated_urls calls3 = []"
        using fetchProject_calls [of e ?h "TeamProjectName ctx" s coll] fp by simp
      show ?thesis using assms rc \<open>r = Inr sc\<close> sc fc Inr fp v2 v3
        by (auto simp: GetRepositoryInfo_def calls_of_def Let_def validated_urls_append)
    qed
  qed
qed

lemma GetRepositoryInfo_failed_resolution:
  assumes "Type ctx = TFVC \<or> Type ctx = EXTERNAL"
    and "result_of (resolveCollection e ctx) = Inl err"
  shows "GetRepositoryInfo e ctx =
         (Inl err, context_of (resolveCollection e ctx), calls_of (resolveCollection e ctx))"
  using assms
  by (auto simp: GetRepositoryInfo_def run_defs Let_def split: prod.splits sum.splits)

section \<open>URL decomposition: claims\<close>

text \<open>
  C3. For every non-empty URL, \<^verbatim>\<open>splitTfvcCollectionUrl\<close> strips all trailing slashes
  and splits at the last slash that remains: the suffix is the collection name, the
  prefix with that slash the server URL; with no slash left the whole input is the server
  URL and the collection name is empty. That is \<open>decompose_spec\<close>.
\<close>

theorem splitTfvcCollectionUrl_decompose:
  assumes "u \<noteq> []"
  shows "splitTfvcCollectionUrl u = (Some (fst (decompose_spec u)), Some (snd (decompose_spec u)))"
  using assms by (rule split_agrees)

theorem splitTfvcCollectionUrl_decompose_witness:
  "''https://tfs/Coll//'' \<noteq> [] \<and>
   splitTfvcCollectionUrl ''https://tfs/Coll//'' = (Some ''https://tfs/'', Some ''Coll'') \<and>
   splitTfvcCollectionUrl ''tfs'' = (Some ''tfs'', Some '''')"
  using splitTfvcCollectionUrl_decompose [of "''https://tfs/Coll//''"]
    splitTfvcCollectionUrl_decompose [of "''tfs''"]
  by (simp add: decompose_spec_def strip_trailing_slashes_def)

text \<open>
  C9, as claimed: decomposing \<^verbatim>\<open>https://tfs/\<close> gives an empty collection name and the
  server URL unchanged. It does not: the two slashes after the scheme are separators like
  any other.
\<close>

theorem split_https_tfs_counterexample:
  "splitTfvcCollectionUrl ''https://tfs/'' \<noteq> (Some ''https://tfs/'', Some '''')"
  by (simp add: splitTfvcCollectionUrl_def trimTrailingSeparators_def substring_def
      substring_from_def lastIndexOf_def charAt_def)

text \<open>
  C9, amended. Decomposing \<^verbatim>\<open>https://tfs/\<close> gives the collection name \<^verbatim>\<open>tfs\<close> and
  the server URL \<^verbatim>\<open>https://\<close>. An empty collection name with the input returned
  unchanged is what a URL with no slash but trailing ones gives, such as \<^verbatim>\<open>tfs/\<close>.
\<close>

theorem split_https_tfs:
  "splitTfvcCollectionUrl ''https://tfs/'' = (Some ''https://'', Some ''tfs'') \<and>
   splitTfvcCollectionUrl ''tfs/'' = (Some ''tfs/'', Some '''')"
  by (simp add: splitTfvcCollectionUrl_def trimTrailingSeparators_def substring_def
      substring_from_def lastIndexOf_def charAt_def)

text \<open>
  C8, as claimed: the resolved collection name is never missing, and is the empty string
  for an empty URL. For the empty URL the array of unset entries is returned, so both the
  server URL and the collection name are \<^verbatim>\<open>undefined\<close>; that is also what the
  resolution of an empty remote URL that validates hands on.
\<close>

theorem collection_name_missing_counterexample:
  "splitTfvcCollectionUrl '''' = (None, None) \<and>
   result_of (resolveCollection (onprem_env [''''])
      \<lparr> Type = TFVC, RemoteUrl = '''', TeamProjectName = None \<rparr>) = Inr (None, None)"
  by (simp add: splitTfvcCollectionUrl_def resolveCollection_def validateTfvcCollectionUrl_def
      onprem_env_def result_of_def)

text \<open>
  C8, amended. For every non-empty remote URL, a resolution that succeeds gives a
  collection name that is a string, never a missing value; and when the URL validated as
  given has no slash left after its trailing ones are stripped, that name is the empty
  string.
\<close>

theorem collection_name_defined:
  assumes "RemoteUrl ctx \<noteq> []"
    and "result_of (resolveCollection e ctx) = Inr (serverUrl, collectionName)"
  shows "(\<exists>name. collectionName = Some name) \<and>
         (\<not> IsTeamFoundationServicesRepo e (RemoteUrl ctx) \<and>
          validateTfvcCollectionUrl e (RemoteUrl ctx) = Inr True \<and>
          CHR ''/'' \<notin> set (strip_trailing_slashes (RemoteUrl ctx))
          \<longrightarrow> collectionName = Some '''')"
proof -
  have sp: "splitTfvcCollectionUrl (RemoteUrl ctx) =
      (Some (fst (decompose_spec (RemoteUrl ctx))), Some (snd (decompose_spec (RemoteUrl ctx))))"
    using assms(1) by (rule split_agrees)
  have nm: "\<exists>name. collectionName = Some name"
    using assms(2) sp
    by (auto simp: resolveCollection_def result_of_def Let_def split: if_splits sum.splits)
  have em: "collectionName = Some ''''"
    if "\<not> IsTeamFoundationServicesRepo e (RemoteUrl ctx)"
      and "validateTfvcCollectionUrl e (RemoteUrl ctx) = Inr True"
      and "CHR ''/'' \<notin> set (strip_trailing_slashes (RemoteUrl ctx))"
    using that assms(2) sp
    by (simp add: resolveCollection_def result_of_def Let_def decompose_spec_def)
  show ?thesis using nm em by blast
qed

theorem collection_name_defined_witness:
  "RemoteUrl \<lparr> Type = TFVC, RemoteUrl = ''tfs/'', TeamProjectName = None \<rparr> \<noteq> [] \<and>
   result_of (resolveCollection (onprem_env [''tfs/''])
      \<lparr> Type = TFVC, RemoteUrl = ''tfs/'', TeamProjectName = None \<rparr>)
     = Inr (Some ''tfs/'', Some '''')"
proof -
  let ?ctx = "\<lparr> Type = TFVC, RemoteUrl = ''tfs/'', TeamProjectName = None \<rparr>"
  let ?e = "onprem_env [''tfs/'']"
  have v: "validateTfvcCollectionUrl ?e (RemoteUrl ?ctx) = Inr True"
    by (simp add: validateTfvcCollectionUrl_def onprem_env_def)
  have h: "\<not> IsTeamFoundationServicesRepo ?e (RemoteUrl ?ctx)"
    by (simp add: onprem_env_def)
  have r: "result_of (resolveCollection ?e ?ctx) =
      Inr (fst (splitTfvcCollectionUrl ''tfs/''), snd (splitTfvcCollectionUrl ''tfs/''))"
    using v h by (simp add: resolveCollection_def result_of_def Let_def)
  have n: "RemoteUrl ?ctx \<noteq> []" by simp
  have s: "CHR ''/'' \<notin> set (strip_trailing_slashes (RemoteUrl ?ctx))"
    by (simp add: strip_trailing_slashes_def)
  have f: "fst (splitTfvcCollectionUrl ''tfs/'') = Some ''tfs/''"
    by (simp add: splitTfvcCollectionUrl_def trimTrailingSeparators_def substring_def
      substring_from_def lastIndexOf_def charAt_def)
  have "snd (splitTfvcCollectionUrl ''tfs/'') = Some ''''"
    using collection_name_defined [OF n r] v h s by blast
  then show ?thesis using r n f by simp
qed

section \<open>Validation: claims\<close>

text \<open>
  C5. The validation call never throws for a URL that is merely invalid: a rejection with
  status 404 becomes the result false, and it is the only way to get false; every other
  rejection is rethrown as it is, and nothing else is thrown.
\<close>

theorem validateTfvcCollectionUrl_404_is_false:
  "(TeamServicesApi_validate e u = None \<longrightarrow> validateTfvcCollectionUrl e u = Inr True) \<and>
   (\<forall>err. TeamServicesApi_validate e u = Some err \<and> statusCode err = Some 404 \<longrightarrow>
      validateTfvcCollectionUrl e u = Inr False) \<and>
   (\<forall>err. TeamServicesApi_validate e u = Some err \<and> statusCode err \<noteq> Some 404 \<longrightarrow>
      validateTfvcCollectionUrl e u = Inl (Rejected err)) \<and>
   (validateTfvcCollectionUrl e u = Inr False \<longrightarrow>
      (\<exists>err. TeamServicesApi_validate e u = Some err \<and> statusCode err = Some 404)) \<and>
   (\<forall>x. validateTfvcCollectionUrl e u = Inl x \<longrightarrow>
      (\<exists>err. TeamServicesApi_validate e u = Some err \<and> statusCode err \<noteq> Some 404 \<and>
             x = Rejected err))"
  by (auto simp: validateTfvcCollectionUrl_def split: option.splits if_splits)

theorem validateTfvcCollectionUrl_404_is_false_witness:
  "TeamServicesApi_validate (onprem_env [''https://tfs/tfs/Coll'']) ''https://tfs/tfs''
     = Some not_found \<and>
   statusCode not_found = Some 404 \<and>
   validateTfvcCollectionUrl (onprem_env [''https://tfs/tfs/Coll'']) ''https://tfs/tfs''
     = Inr False \<and>
   TeamServicesApi_validate unavailable_env ''https://tfs/tfs'' = Some unavailable \<and>
   statusCode unavailable \<noteq> Some 404 \<and>
   validateTfvcCollectionUrl unavailable_env ''https://tfs/tfs'' = Inl (Rejected unavailable)"
proof -
  let ?e1 = "onprem_env [''https://tfs/tfs/Coll'']"
  have a: "TeamServicesApi_validate ?e1 ''https://tfs/tfs'' = Some not_found"
    by (simp add: onprem_env_def)
  have b: "statusCode not_found = Some 404" by (simp add: not_found_def)
  have c: "TeamServicesApi_validate unavailable_env ''https://tfs/tfs'' = Some unavailable"
    by (simp add: unavailable_env_def)
  have d: "statusCode unavailable \<noteq> Some 404" by (simp add: unavailable_def)
  show ?thesis
    using validateTfvcCollectionUrl_404_is_false [of ?e1 "''https://tfs/tfs''"]
      validateTfvcCollectionUrl_404_is_false [of unavailable_env "''https://tfs/tfs''"] a b c d
    by blast
qed

section \<open>Address resolution: claims\<close>

text \<open>
  C4. For a TFVC or external repository whose remote URL matches the Team Services
  pattern, the candidate is \<^verbatim>\<open>https://{account}.visualstudio.com/\<close> with the account
  derived from the URL. When it validates, the resolved server URL is the candidate and
  the collection name is the account, and these are what the REST collection fetch is
  called with. When validation answers false, the resolution throws at once: the one
  validation is the only call made, and the context is untouched.
\<close>

theorem hosted_resolution:
  assumes "Type ctx = TFVC \<or> Type ctx = EXTERNAL"
    and "IsTeamFoundationServicesRepo e (RemoteUrl ctx)"
    and "account = Account e (RemoteUrl ctx)"
    and "candidate = ''https://'' @ account @ ''.visualstudio.com/''"
  shows "(validateTfvcCollectionUrl e candidate = Inr True \<longrightarrow>
            resolveCollection e ctx =
              (Inr (Some candidate, Some account), ctx, [Call_validate candidate]) \<and>
            take 2 (calls_of (GetRepositoryInfo e ctx)) =
              [Call_validate candidate,
               Call_CoreApi_GetProjectCollection (Some candidate) (Some account)]) \<and>
         (validateTfvcCollectionUrl e candidate = Inr False \<longrightarrow>
            GetRepositoryInfo e ctx =
              (Inl (UnableToValidateTeamServicesTfvcRepository account candidate),
               ctx, [Call_validate candidate]))"
proof -
  have ok: "resolveCollection e ctx =
      (Inr (Some candidate, Some account), ctx, [Call_validate candidate])"
    if "validateTfvcCollectionUrl e candidate = Inr True"
    using that assms(2-4) by (simp add: resolveCollection_def Let_def)
  have calls: "take 2 (calls_of (GetRepositoryInfo e ctx)) =
      [Call_validate candidate, Call_CoreApi_GetProjectCollection (Some candidate) (Some account)]"
    if "validateTfvcCollectionUrl e candidate = Inr True"
    using ok [OF that] assms(1,2)
    by (auto simp: GetRepositoryInfo_def fetchCollection_def calls_of_def Let_def
        split: prod.splits sum.splits option.splits)
  have no: "GetRepositoryInfo e ctx =
      (Inl (UnableToValidateTeamServicesTfvcRepository account candidate),
       ctx, [Call_validate candidate])"
    if "validateTfvcCollectionUrl e candidate = Inr False"
  proof -
    have "resolveCollection e ctx =
        (Inl (UnableToValidateTeamServicesTfvcRepository account candidate),
         ctx, [Call_validate candidate])"
      using that assms(2-4) by (simp add: resolveCollection_def Let_def)
    then show ?thesis using assms(1) by (auto simp: GetRepositoryInfo_def Let_def)
  qed
  show ?thesis using ok calls no by blast
qed

theorem hosted_resolution_witness:
  "resolveCollection (hosted_env [''https://fabrikam.visualstudio.com/''])
      \<lparr> Type = TFVC, RemoteUrl = ''https://fabrikam.visualstudio.com'', TeamProjectName = None \<rparr>
     = (Inr (Some ''https://fabrikam.visualstudio.com/'', Some ''fabrikam''),
        \<lparr> Type = TFVC, RemoteUrl = ''https://fabrikam.visualstudio.com'', TeamProjectName = None \<rparr>,
        [Call_validate ''https://fabrikam.visualstudio.com/'']) \<and>
   take 2 (calls_of (GetRepositoryInfo (hosted_env [''https://fabrikam.visualstudio.com/''])
      \<lparr> Type = TFVC, RemoteUrl = ''https://fabrikam.visualstudio.com'', TeamProjectName = None \<rparr>))
     = [Call_validate ''https://fabrikam.visualstudio.com/'',
        Call_CoreApi_GetProjectCollection (Some ''https://fabrikam.visualstudio.com/'')
          (Some ''fabrikam'')] \<and>
   GetRepositoryInfo (hosted_env [])
      \<lparr> Type = TFVC, RemoteUrl = ''https://fabrikam.visualstudio.com'', TeamProjectName = None \<rparr>
     = (Inl (UnableToValidateTeamServicesTfvcRepository ''fabrikam''
               ''https://fabrikam.visualstudio.com/''),
        \<lparr> Type = TFVC, RemoteUrl = ''https://fabrikam.visualstudio.com'', TeamProjectName = None \<rparr>,
        [Call_validate ''https://fabrikam.visualstudio.com/''])"
proof -
  let ?ctx = "\<lparr> Type = TFVC, RemoteUrl = ''https://fabrikam.visualstudio.com'',
                 TeamProjectName = None \<rparr>"
  let ?up = "hosted_env [''https://fabrikam.visualstudio.com/'']"
  let ?down = "hosted_env []"
  let ?cand = "''https://fabrikam.visualstudio.com/''"
  have t: "Type ?ctx = TFVC \<or> Type ?ctx = EXTERNAL" by simp
  have h1: "IsTeamFoundationServicesRepo ?up (RemoteUrl ?ctx)" by (simp add: hosted_env_def)
  have h2: "IsTeamFoundationServicesRepo ?down (RemoteUrl ?ctx)" by (simp add: hosted_env_def)
  have a1: "''fabrikam'' = Account ?up (RemoteUrl ?ctx)" by (simp add: hosted_env_def)
  have a2: "''fabrikam'' = Account ?down (RemoteUrl ?ctx)" by (simp add: hosted_env_def)
  have c: "?cand = ''https://'' @ ''fabrikam'' @ ''.visualstudio.com/''" by simp
  have v1: "validateTfvcCollectionUrl ?up ?cand = Inr True"
    by (simp add: validateTfvcCollectionUrl_def hosted_env_def)
  have v2: "validateTfvcCollectionUrl ?down ?cand = Inr False"
    by (simp add: validateTfvcCollectionUrl_def hosted_env_def not_found_def)
  show ?thesis
    using hosted_resolution [OF t h1 a1 c] hosted_resolution [OF t h2 a2 c] v1 v2
    by blast
qed

text \<open>
  C6. In a resolution of a TFVC or external repository whose URL is not a Team Services
  one, when the remote URL validates as given, its decomposition is the resolved address,
  that validation is the only one of the whole run (no default-collection candidate is
  validated), and the context is not modified.
\<close>

theorem literal_url_stops_fallback:
  assumes "Type ctx = TFVC \<or> Type ctx = EXTERNAL"
    and "\<not> IsTeamFoundationServicesRepo e (RemoteUrl ctx)"
    and "validateTfvcCollectionUrl e (RemoteUrl ctx) = Inr True"
  shows "resolveCollection e ctx =
           (Inr (splitTfvcCollectionUrl (RemoteUrl ctx)), ctx, [Call_validate (RemoteUrl ctx)]) \<and>
         validated_urls (calls_of (GetRepositoryInfo e ctx)) = [RemoteUrl ctx] \<and>
         context_of (GetRepositoryInfo e ctx) = ctx"
proof -
  have r: "resolveCollection e ctx =
      (Inr (splitTfvcCollectionUrl (RemoteUrl ctx)), ctx, [Call_validate (RemoteUrl ctx)])"
    using assms(2,3) by (simp add: resolveCollection_def Let_def)
  have "validated_urls (calls_of (GetRepositoryInfo e ctx)) = [RemoteUrl ctx]"
    using GetRepositoryInfo_validated [OF assms(1), of e] r
    by (simp add: calls_of_def validated_urls_def List.map_filter_simps)
  moreover have "context_of (GetRepositoryInfo e ctx) = ctx"
    using GetRepositoryInfo_context [OF assms(1), of e] r by (simp add: context_of_def)
  ultimately show ?thesis using r by simp
qed

theorem literal_url_stops_fallback_witness:
  "validated_urls (calls_of (GetRepositoryInfo
      (onprem_env [''https://tfsserver/tfs/Coll'', ''https://tfsserver/tfs/DefaultCollection''])
      \<lparr> Type = TFVC, RemoteUrl = ''https://tfsserver/tfs/Coll'', TeamProjectName = None \<rparr>))
     = [''https://tfsserver/tfs/Coll''] \<and>
   context_of (GetRepositoryInfo
      (onprem_env [''https://tfsserver/tfs/Coll'', ''https://tfsserver/tfs/DefaultCollection''])
      \<lparr> Type = TFVC, RemoteUrl = ''https://tfsserver/tfs/Coll'', TeamProjectName = None \<rparr>)
     = \<lparr> Type = TFVC, RemoteUrl = ''https://tfsserver/tfs/Coll'', TeamProjectName = None \<rparr>"
proof -
  let ?ctx = "\<lparr> Type = TFVC, RemoteUrl = ''https://tfsserver/tfs/Coll'', TeamProjectName = None \<rparr>"
  let ?e = "onprem_env [''https://tfsserver/tfs/Coll'', ''https://tfsserver/tfs/DefaultCollection'']"
  have t: "Type ?ctx = TFVC \<or> Type ?ctx = EXTERNAL" by simp
  have h: "\<not> IsTeamFoundationServicesRepo ?e (RemoteUrl ?ctx)" by (simp add: onprem_env_def)
  have v: "validateTfvcCollectionUrl ?e (RemoteUrl ?ctx) = Inr True"
    by (simp add: validateTfvcCollectionUrl_def onprem_env_def)
  show ?thesis using literal_url_stops_fallback [OF t h v] by simp
qed

text \<open>
  C7. On the SOAP path (a TFVC or external repository whose URL is not a Team Services
  one), when the address is resolved and the catalog returns no collection object, the
  resolution throws an error naming the collection and the server; the catalog call is
  the last call made, so no project is fetched and nothing partial is returned.
\<close>

theorem soap_collection_absent_is_error:
  assumes "Type ctx = TFVC \<or> Type ctx = EXTERNAL"
    and "\<not> IsTeamFoundationServicesRepo e (RemoteUrl ctx)"
    and "result_of (resolveCollection e ctx) = Inr (serverUrl, collectionName)"
    and "TfsCatalogSoap_GetProjectCollection e serverUrl collectionName = Inr None"
  shows "result_of (GetRepositoryInfo e ctx) =
           Inl (Error (''Using SOAP, could not find a project collection object for ''
                  @ interpolate collectionName @ '' at '' @ interpolate serverUrl)) \<and>
         calls_of (GetRepositoryInfo e ctx) =
           calls_of (resolveCollection e ctx) @
           [Call_TfsCatalogSoap_GetProjectCollection serverUrl collectionName]"
  using assms
  by (auto simp: GetRepositoryInfo_def fetchCollection_def result_of_def calls_of_def Let_def
      split: prod.splits sum.splits)

theorem soap_collection_absent_is_error_witness:
  "GetRepositoryInfo
      ((onprem_env [''https://tfsserver/tfs/Coll''])
         \<lparr> TfsCatalogSoap_GetProjectCollection := (\<lambda>s c. Inr None) \<rparr>)
      \<lparr> Type = TFVC, RemoteUrl = ''https://tfsserver/tfs/Coll'', TeamProjectName = None \<rparr>
   = (Inl (Error ''Using SOAP, could not find a project collection object for Coll at https://tfsserver/tfs/''),
      \<lparr> Type = TFVC, RemoteUrl = ''https://tfsserver/tfs/Coll'', TeamProjectName = None \<rparr>,
      [Call_validate ''https://tfsserver/tfs/Coll'',
       Call_TfsCatalogSoap_GetProjectCollection (Some ''https://tfsserver/tfs/'') (Some ''Coll'')])"
proof -
  let ?ctx = "\<lparr> Type = TFVC, RemoteUrl = ''https://tfsserver/tfs/Coll'', TeamProjectName = None \<rparr>"
  let ?e = "(onprem_env [''https://tfsserver/tfs/Coll''])
              \<lparr> TfsCatalogSoap_GetProjectCollection := (\<lambda>s c. Inr None) \<rparr>"
  have t: "Type ?ctx = TFVC \<or> Type ?ctx = EXTERNAL" by simp
  have h: "\<not> IsTeamFoundationServicesRepo ?e (RemoteUrl ?ctx)" by (simp add: onprem_env_def)
  have s: "splitTfvcCollectionUrl ''https://tfsserver/tfs/Coll'' =
      (Some ''https://tfsserver/tfs/'', Some ''Coll'')"
    by (simp add: splitTfvcCollectionUrl_def trimTrailingSeparators_def substring_def
      substring_from_def lastIndexOf_def charAt_def)
  have rc: "resolveCollection ?e ?ctx =
      (Inr (Some ''https://tfsserver/tfs/'', Some ''Coll''), ?ctx,
       [Call_validate ''https://tfsserver/tfs/Coll''])"
    using s by (simp add: resolveCollection_def validateTfvcCollectionUrl_def onprem_env_def Let_def)
  have r: "result_of (resolveCollection ?e ?ctx) = Inr (Some ''https://tfsserver/tfs/'', Some ''Coll'')"
    using rc by (simp add: result_of_def)
  have a: "TfsCatalogSoap_GetProjectCollection ?e (Some ''https://tfsserver/tfs/'') (Some ''Coll'') = Inr None"
    by simp
  have c: "context_of (GetRepositoryInfo ?e ?ctx) = ?ctx"
    using GetRepositoryInfo_context [OF t, of ?e] rc by (simp add: context_of_def)
  have "GetRepositoryInfo ?e ?ctx =
      (result_of (GetRepositoryInfo ?e ?ctx), context_of (GetRepositoryInfo ?e ?ctx),
       calls_of (GetRepositoryInfo ?e ?ctx))"
    by (simp add: result_of_def context_of_def calls_of_def)
  then show ?thesis
    using soap_collection_absent_is_error [OF t h r a] c rc
    by (simp add: interpolate_def calls_of_def)
qed

text \<open>
  C1. With the remote URL \<^verbatim>\<open>https://tfsserver/tfs\<close>, the literal validation false and
  the validation of \<^verbatim>\<open>https://tfsserver/tfs/DefaultCollection\<close> successful, the claim
  has that URL validated and stored, with the collection name \<^verbatim>\<open>DefaultCollection\<close>.
  The comments on lines 67-69 and 86 say the same: the URL given is taken as the server
  URL and the default collection as its collection. The client builds the candidate with
  \<^verbatim>\<open>url.resolve\<close>, which replaces the last segment \<^verbatim>\<open>tfs\<close> of a URL that does not
  end in a slash. So for a TFVC context, on a server where only the intended URL
  validates, the client validates \<^verbatim>\<open>https://tfsserver/DefaultCollection\<close> instead and
  the resolution throws; and on a server where that URL validates as well, it is the one
  validated and stored.
\<close>

theorem default_collection_drops_last_segment:
  "GetRepositoryInfo (onprem_env [''https://tfsserver/tfs/DefaultCollection''])
      \<lparr> Type = TFVC, RemoteUrl = ''https://tfsserver/tfs'', TeamProjectName = None \<rparr>
     = (Inl UnableToValidateTfvcRepositoryWithDefaultCollection,
        \<lparr> Type = TFVC, RemoteUrl = ''https://tfsserver/tfs'', TeamProjectName = None \<rparr>,
        [Call_validate ''https://tfsserver/tfs'',
         Call_validate ''https://tfsserver/DefaultCollection'']) \<and>
   validated_urls (calls_of (GetRepositoryInfo
      (onprem_env [''https://tfsserver/tfs/DefaultCollection'', ''https://tfsserver/DefaultCollection''])
      \<lparr> Type = TFVC, RemoteUrl = ''https://tfsserver/tfs'', TeamProjectName = None \<rparr>))
     = [''https://tfsserver/tfs'', ''https://tfsserver/DefaultCollection''] \<and>
   RemoteUrl (context_of (GetRepositoryInfo
      (onprem_env [''https://tfsserver/tfs/DefaultCollection'', ''https://tfsserver/DefaultCollection''])
      \<lparr> Type = TFVC, RemoteUrl = ''https://tfsserver/tfs'', TeamProjectName = None \<rparr>))
     = ''https://tfsserver/DefaultCollection''"
  by (simp add: GetRepositoryInfo_def resolveCollection_def validateTfvcCollectionUrl_def
      fetchCollection_def fetchProject_def onprem_env_def not_found_def node_url_resolve_def
      split_origin_def interpolate_def calls_of_def context_of_def validated_urls_def
      List.map_filter_simps Let_def)

text \<open>
  C10. A context that is not of type TFVC, the external one in particular, comes out
  of a resolution as it went in, whatever the collaborators answer, also when it is the
  default-collection candidate that validates; a context that comes out changed is of
  type TFVC, and a TFVC context whose default-collection candidate validates receives
  the candidate as its remote URL.
\<close>

theorem only_tfvc_context_is_updated:
  "(Type ctx = EXTERNAL \<longrightarrow> context_of (GetRepositoryInfo e ctx) = ctx) \<and>
   (context_of (GetRepositoryInfo e ctx) \<noteq> ctx \<longrightarrow> Type ctx = TFVC) \<and>
   (Type ctx = TFVC \<and> \<not> IsTeamFoundationServicesRepo e (RemoteUrl ctx) \<and>
    validateTfvcCollectionUrl e (RemoteUrl ctx) = Inr False \<and>
    validateTfvcCollectionUrl e (url_resolve e (RemoteUrl ctx) ''DefaultCollection'') = Inr True
    \<longrightarrow> context_of (GetRepositoryInfo e ctx) =
          ctx\<lparr>RemoteUrl := url_resolve e (RemoteUrl ctx) ''DefaultCollection''\<rparr>)"
proof -
  have keep: "context_of (resolveCollection e ctx) = ctx" if "Type ctx \<noteq> TFVC"
    using that
    by (simp add: resolveCollection_def context_of_def Let_def split: sum.splits)
  have ext: "context_of (GetRepositoryInfo e ctx) = ctx" if "Type ctx = EXTERNAL"
    using that GetRepositoryInfo_context [of ctx e] keep by simp
  have other: "context_of (GetRepositoryInfo e ctx) = ctx"
    if "Type ctx \<noteq> TFVC" "Type ctx \<noteq> EXTERNAL"
    using that by (simp add: GetRepositoryInfo_def context_of_def)
  have upd: "context_of (GetRepositoryInfo e ctx) =
      ctx\<lparr>RemoteUrl := url_resolve e (RemoteUrl ctx) ''DefaultCollection''\<rparr>"
    if "Type ctx = TFVC" "\<not> IsTeamFoundationServicesRepo e (RemoteUrl ctx)"
      "validateTfvcCollectionUrl e (RemoteUrl ctx) = Inr False"
      "validateTfvcCollectionUrl e (url_resolve e (RemoteUrl ctx) ''DefaultCollection'') = Inr True"
  proof -
    have "context_of (resolveCollection e ctx) =
        ctx\<lparr>RemoteUrl := url_resolve e (RemoteUrl ctx) ''DefaultCollection''\<rparr>"
      using that by (simp add: resolveCollection_def context_of_def Let_def)
    then show ?thesis using that(1) GetRepositoryInfo_context [of ctx e] by simp
  qed
  show ?thesis using ext other upd by blast
qed

theorem only_tfvc_context_is_updated_witness:
  "result_of (resolveCollection (onprem_env [''https://tfsserver/tfs/DefaultCollection''])
      \<lparr> Type = EXTERNAL, RemoteUrl = ''https://tfsserver/tfs/'', TeamProjectName = None \<rparr>)
     = Inr (Some ''https://tfsserver/tfs/'', Some ''DefaultCollection'') \<and>
   context_of (GetRepositoryInfo (onprem_env [''https://tfsserver/tfs/DefaultCollection''])
      \<lparr> Type = EXTERNAL, RemoteUrl = ''https://tfsserver/tfs/'', TeamProjectName = None \<rparr>)
     = \<lparr> Type = EXTERNAL, RemoteUrl = ''https://tfsserver/tfs/'', TeamProjectName = None \<rparr> \<and>
   context_of (GetRepositoryInfo (onprem_env [''https://tfsserver/tfs/DefaultCollection''])
      \<lparr> Type = TFVC, RemoteUrl = ''https://tfsserver/tfs/'', TeamProjectName = None \<rparr>)
     = \<lparr> Type = TFVC, RemoteUrl = ''https://tfsserver/tfs/DefaultCollection'',
         TeamProjectName = None \<rparr>"
proof -
  let ?ext = "\<lparr> Type = EXTERNAL, RemoteUrl = ''https://tfsserver/tfs/'', TeamProjectName = None \<rparr>"
  let ?tfvc = "\<lparr> Type = TFVC, RemoteUrl = ''https://tfsserver/tfs/'', TeamProjectName = None \<rparr>"
  let ?e = "onprem_env [''https://tfsserver/tfs/DefaultCollection'']"
  have c: "url_resolve ?e ''https://tfsserver/tfs/'' ''DefaultCollection''
      = ''https://tfsserver/tfs/DefaultCollection''"
    by (simp add: onprem_env_def node_url_resolve_def split_origin_def)
  have h: "\<not> IsTeamFoundationServicesRepo ?e ''https://tfsserver/tfs/''"
    by (simp add: onprem_env_def)
  have v: "validateTfvcCollectionUrl ?e ''https://tfsserver/tfs/'' = Inr False"
    by (simp add: validateTfvcCollectionUrl_def onprem_env_def not_found_def)
  have w: "validateTfvcCollectionUrl ?e ''https://tfsserver/tfs/DefaultCollection'' = Inr True"
    by (simp add: validateTfvcCollectionUrl_def onprem_env_def)
  have r: "result_of (resolveCollection ?e ?ext)
      = Inr (Some ''https://tfsserver/tfs/'', Some ''DefaultCollection'')"
    using c h v w by (simp add: resolveCollection_def result_of_def Let_def)
  have x: "context_of (GetRepositoryInfo ?e ?ext) = ?ext"
    using only_tfvc_context_is_updated [of ?ext ?e] by simp
  have y: "context_of (GetRepositoryInfo ?e ?tfvc) = ?tfvc\<lparr>RemoteUrl := ''https://tfsserver/tfs/DefaultCollection''\<rparr>"
    using only_tfvc_context_is_updated [of ?tfvc ?e] c h v w by simp
  show ?thesis using r x y by simp
qed

section \<open>Protocols: claims\<close>

text \<open>
  C2, as claimed: one protocol serves both the collection fetch and the project fetch
  of a resolution, SOAP for both on an on-premises server. On such a server the
  collection comes through the SOAP catalog and the project through the REST client.
\<close>

theorem one_protocol_counterexample:
  "fetches (calls_of (GetRepositoryInfo (onprem_env [''https://tfsserver/tfs/Coll''])
      \<lparr> Type = TFVC, RemoteUrl = ''https://tfsserver/tfs/Coll'', TeamProjectName = Some ''Proj'' \<rparr>))
     = [(CollectionFetch, SOAP), (ProjectFetch, REST)]"
  by (simp add: GetRepositoryInfo_def resolveCollection_def validateTfvcCollectionUrl_def
      fetchCollection_def fetchProject_def onprem_env_def not_found_def node_url_resolve_def
      split_origin_def interpolate_def calls_of_def fetches_def
      splitTfvcCollectionUrl_def trimTrailingSeparators_def substring_def
      substring_from_def lastIndexOf_def charAt_def
      List.map_filter_simps Let_def)

text \<open>
  C2, amended. The protocol of the collection fetch is chosen once, by the Team Services
  test on the remote URL: REST when it holds, SOAP otherwise. The project fetch goes
  through the REST client in both cases. A run makes at most one collection fetch, and
  the project fetch only after it.
\<close>

theorem fetch_protocols:
  "fetches (calls_of (GetRepositoryInfo e ctx)) \<in>
     {[],
      [(CollectionFetch, if IsTeamFoundationServicesRepo e (RemoteUrl ctx) then REST else SOAP)],
      [(CollectionFetch, if IsTeamFoundationServicesRepo e (RemoteUrl ctx) then REST else SOAP),
       (ProjectFetch, REST)]}"
proof -
  let ?h = "IsTeamFoundationServicesRepo e (RemoteUrl ctx)"
  have rc: "fetches (calls_of (resolveCollection e ctx)) = []"
    by (simp add: resolveCollection_def calls_of_def fetches_def List.map_filter_simps Let_def
        split: sum.splits)
  have fc: "fetches (snd (fetchCollection e ?h s c)) =
      [(CollectionFetch, if ?h then REST else SOAP)]" for s c
    by (simp add: fetchCollection_def fetches_def List.map_filter_simps)
  have fp: "fetches (snd (fetchProject e ?h p s coll)) \<in> {[], [(ProjectFetch, REST)]}" for p s coll
    by (simp add: fetchProject_def fetches_def List.map_filter_simps Let_def split: option.splits)
  have app: "fetches (xs @ ys) = fetches xs @ fetches ys" for xs ys
    by (simp add: fetches_def List.map_filter_def)
  show ?thesis
  proof (cases "Type ctx = TFVC \<or> Type ctx = EXTERNAL")
    case False
    then show ?thesis
      by (simp add: GetRepositoryInfo_def calls_of_def fetches_def List.map_filter_simps)
  next
    case True
    obtain r ctx1 calls1 where r: "resolveCollection e ctx = (r, ctx1, calls1)"
      by (cases "resolveCollection e ctx") auto
    have c1: "fetches calls1 = []" using rc r by (simp add: calls_of_def)
    show ?thesis
    proof (cases r)
      case (Inl err)
      then show ?thesis using True r c1
        by (auto simp: GetRepositoryInfo_def calls_of_def Let_def)
    next
      case (Inr sc)
      obtain s c where sc: "sc = (s, c)" by (cases sc) auto
      obtain r2 calls2 where f2: "fetchCollection e ?h s c = (r2, calls2)"
        by (cases "fetchCollection e ?h s c") auto
      have c2: "fetches calls2 = [(CollectionFetch, if ?h then REST else SOAP)]"
        using fc [of s c] f2 by simp
      show ?thesis
      proof (cases r2)
        case (Inl err)
        then show ?thesis using True r \<open>r = Inr sc\<close> sc f2 c1 c2
          by (auto simp: GetRepositoryInfo_def calls_of_def Let_def app)
      next
        case (Inr coll)
        obtain r3 calls3 where f3: "fetchProject e ?h (TeamProjectName ctx) s coll = (r3, calls3)"
          by (cases "fetchProject e ?h (TeamProjectName ctx) s coll") auto
        have c3: "fetches calls3 \<in> {[], [(ProjectFetch, REST)]}"
          using fp [of "TeamProjectName ctx" s coll] f3 by simp
        have "calls_of (GetRepositoryInfo e ctx) = calls1 @ calls2 @ calls3"
          using True r \<open>r = Inr sc\<close> sc f2 Inr f3
          by (auto simp: GetRepositoryInfo_def calls_of_def Let_def)
        then show ?thesis using c1 c2 c3 by (auto simp: app)
      qed
    qed
  qed
qed

theorem fetch_protocols_witness:
  "fetches (calls_of (GetRepositoryInfo (hosted_env [''https://fabrikam.visualstudio.com/''])
      \<lparr> Type = TFVC, RemoteUrl = ''https://fabrikam.visualstudio.com'', TeamProjectName = None \<rparr>))
     \<in> {[], [(CollectionFetch, REST)], [(CollectionFetch, REST), (ProjectFetch, REST)]} \<and>
   fetches (calls_of (GetRepositoryInfo (onprem_env [''https://tfsserver/tfs/Coll''])
      \<lparr> Type = TFVC, RemoteUrl = ''https://tfsserver/tfs/Coll'', TeamProjectName = None \<rparr>))
     \<in> {[], [(CollectionFetch, SOAP)], [(CollectionFetch, SOAP), (ProjectFetch, REST)]}"
  using fetch_protocols [of "hosted_env [''https://fabrikam.visualstudio.com/'']"
      "\<lparr> Type = TFVC, RemoteUrl = ''https://fabrikam.visualstudio.com'', TeamProjectName = None \<rparr>"]
    fetch_protocols [of "onprem_env [''https://tfsserver/tfs/Coll'']"
      "\<lparr> Type = TFVC, RemoteUrl = ''https://tfsserver/tfs/Coll'', TeamProjectName = None \<rparr>"]
  by (simp add: hosted_env_def onprem_env_def)

end
